theory Spec2Isabelle
  imports Main
begin

section \<open>Profile icons (userDataProfileIcons.ts)\<close>

text \<open>
  Modelled from the spec: the \<^verbatim>\<open>Codicon\<close> namespace of \<^verbatim>\<open>vs/base/common/codicons\<close> is
  imported by the icon file and is not among the sources. The spec calls the entries icon
  identifiers of a fixed enumeration, so the members the list refers to form an enumeration
  type with one constructor for each member name (\<^verbatim>\<open>Codicon.vm\<close> is \<open>Codicon_vm\<close>).
\<close>

datatype codicon =
    Codicon_settingsGear | Codicon_vm | Codicon_server | Codicon_recordKeys
  | Codicon_deviceMobile | Codicon_watch | Codicon_ruby | Codicon_code | Codicon_window
  | Codicon_library | Codicon_extensions | Codicon_terminal | Codicon_beaker
  | Codicon_package | Codicon_cloud | Codicon_book | Codicon_globe | Codicon_database
  | Codicon_notebook | Codicon_gift | Codicon_send | Codicon_briefcase | Codicon_megaphone
  | Codicon_comment | Codicon_telescope | Codicon_creditCard | Codicon_map
  | Codicon_deviceCameraVideo | Codicon_unmute | Codicon_law | Codicon_graphLine
  | Codicon_heart | Codicon_home | Codicon_inbox | Codicon_mortarBoard | Codicon_rocket
  | Codicon_magnet | Codicon_lock | Codicon_milestone | Codicon_tag | Codicon_pulse
  | Codicon_radioTower | Codicon_smiley | Codicon_symbolEvent | Codicon_squirrel
  | Codicon_symbolColor | Codicon_mail | Codicon_key | Codicon_pieChart
  | Codicon_organization | Codicon_preview | Codicon_wand | Codicon_starEmpty
  | Codicon_lightbulb | Codicon_symbolRuler | Codicon_dashboard | Codicon_calendar
  | Codicon_shield | Codicon_flame | Codicon_compass | Codicon_paintcan | Codicon_archive
  | Codicon_mic

definition DEFAULT_ICON :: codicon where
  "DEFAULT_ICON = Codicon_settingsGear"

definition ICONS :: "codicon list" where
  "ICONS =
    [DEFAULT_ICON,
     Codicon_vm, Codicon_server, Codicon_recordKeys, Codicon_deviceMobile, Codicon_watch,
     Codicon_ruby, Codicon_code, Codicon_window, Codicon_library, Codicon_extensions,
     Codicon_terminal, Codicon_beaker, Codicon_package, Codicon_cloud, Codicon_book,
     Codicon_globe, Codicon_database, Codicon_notebook, Codicon_gift, Codicon_send,
     Codicon_briefcase, Codicon_megaphone, Codicon_comment, Codicon_telescope,
     Codicon_creditCard, Codicon_map, Codicon_deviceCameraVideo, Codicon_unmute,
     Codicon_law, Codicon_graphLine, Codicon_heart, Codicon_home, Codicon_inbox,
     Codicon_mortarBoard, Codicon_rocket, Codicon_magnet, Codicon_lock, Codicon_milestone,
     Codicon_tag, Codicon_pulse, Codicon_radioTower, Codicon_smiley, Codicon_symbolEvent,
     Codicon_squirrel, Codicon_symbolColor, Codicon_mail, Codicon_key, Codicon_pieChart,
     Codicon_organization, Codicon_preview, Codicon_wand, Codicon_starEmpty,
     Codicon_lightbulb, Codicon_symbolRuler, Codicon_dashboard, Codicon_calendar,
     Codicon_shield, Codicon_flame, Codicon_compass, Codicon_paintcan, Codicon_archive,
     Codicon_mic]"

section \<open>JavaScript values at the call sites\<close>

text \<open>
  The values handed to the formatting helpers are strings, \<^verbatim>\<open>null\<close> (a keybinding without
  an aria label) or \<^verbatim>\<open>undefined\<close> (optional chaining on a missing keybinding).
  \<open>truthy\<close> is the test of an \<^verbatim>\<open>if\<close> or a conditional expression, \<open>js_String\<close> the
  conversion \<^verbatim>\<open>String(v)\<close>.
\<close>

datatype js_value = Undefined | Null | Str string

fun truthy :: "js_value \<Rightarrow> bool" where
  "truthy Undefined = False"
| "truthy Null = False"
| "truthy (Str s) = (s \<noteq> [])"

fun js_String :: "js_value \<Rightarrow> string" where
  "js_String Undefined = ''undefined''"
| "js_String Null = ''null''"
| "js_String (Str s) = s"

section \<open>Placeholder substitution (\<^verbatim>\<open>format\<close> and \<^verbatim>\<open>localize\<close>)\<close>

text \<open>
  Modelled from the spec: \<^verbatim>\<open>format\<close> of \<^verbatim>\<open>vs/base/common/strings\<close> and \<^verbatim>\<open>localize\<close> of
  \<^verbatim>\<open>vs/nls\<close> are imported and not among the sources. The spec describes them as formatting
  strings with substitution values. Both replace every placeholder, an opening brace, one or
  more decimal digits and a closing brace, scanning from left to right without rescanning what
  they insert, and both return the message as it is when no argument is passed. \<open>format\<close>
  reads the digits as a decimal index and keeps a placeholder whose index has no argument;
  \<open>localize\<close> takes the first digit as the index, answers with the default (English) message
  of the call, and renders a missing argument as the text \<^verbatim>\<open>undefined\<close>.
\<close>

definition is_digit :: "char \<Rightarrow> bool" where
  "is_digit c = (c \<in> set ''0123456789'')"

definition digit_value :: "char \<Rightarrow> nat" where
  "digit_value c = of_char c - 48"

definition parseInt :: "string \<Rightarrow> nat" where
  "parseInt ds = foldl (\<lambda>n c. 10 * n + digit_value c) 0 ds"

function replace_placeholders :: "(string \<Rightarrow> string) \<Rightarrow> string \<Rightarrow> string" where
  "replace_placeholders f [] = []"
| "replace_placeholders f (c # cs) =
    (if c = CHR ''{'' then
       (case dropWhile is_digit cs of
          [] \<Rightarrow> c # replace_placeholders f cs
        | d # rest \<Rightarrow>
            if d = CHR ''}'' \<and> takeWhile is_digit cs \<noteq> []
            then f (takeWhile is_digit cs) @ replace_placeholders f rest
            else c # replace_placeholders f cs)
     else c # replace_placeholders f cs)"
  by pat_completeness auto

termination replace_placeholders
proof (relation "measure (\<lambda>(f, s). length s)")
  fix f :: "string \<Rightarrow> string" and c d :: char and cs rest :: string
  assume "dropWhile is_digit cs = d # rest"
  then have "Suc (length rest) = length (dropWhile is_digit cs)"
    by simp
  also have "\<dots> \<le> length cs"
    by (rule length_dropWhile_le)
  finally show "((f, rest), (f, c # cs)) \<in> measure (\<lambda>(f, s). length s)"
    by simp
qed simp_all

definition format :: "string \<Rightarrow> js_value list \<Rightarrow> string" where
  "format value args =
    (if args = [] then value
     else replace_placeholders
       (\<lambda>group. if parseInt group < length args then js_String (args ! parseInt group)
                else ''{'' @ group @ ''}'') value)"

definition localize :: "string \<Rightarrow> string \<Rightarrow> js_value list \<Rightarrow> string" where
  "localize key message args =
    (if args = [] then message
     else replace_placeholders
       (\<lambda>rest. if digit_value (hd rest) < length args then js_String (args ! digit_value (hd rest))
               else ''undefined'') message)"

section \<open>The keybinding service\<close>

text \<open>
  \<^verbatim>\<open>lookupKeybinding\<close> answers with a resolved keybinding or \<^verbatim>\<open>undefined\<close>; the aria label
  of a resolved keybinding is a string or \<^verbatim>\<open>null\<close>. \<open>optional_getAriaLabel\<close> is the
  expression \<^verbatim>\<open>lookupKeybinding(id)?.getAriaLabel()\<close>.
\<close>

datatype resolved_keybinding = ResolvedKeybinding (getAriaLabel: "string option")

fun of_nullable :: "string option \<Rightarrow> js_value" where
  "of_nullable None = Null"
| "of_nullable (Some s) = Str s"

definition optional_getAriaLabel :: "resolved_keybinding option \<Rightarrow> js_value" where
  "optional_getAriaLabel kb =
    (case kb of None \<Rightarrow> Undefined | Some k \<Rightarrow> of_nullable (getAriaLabel k))"

type_synonym keybinding_service = "string \<Rightarrow> resolved_keybinding option"

section \<open>The help text (\<^verbatim>\<open>getAccessibilityHelpText\<close>, \<^verbatim>\<open>descriptionForCommand\<close>)\<close>

definition descriptionForCommand ::
  "string \<Rightarrow> string \<Rightarrow> string \<Rightarrow> keybinding_service \<Rightarrow> string" where
  "descriptionForCommand commandId msg noKbMsg lookupKeybinding =
    (case lookupKeybinding commandId of
       Some kb \<Rightarrow> format msg [of_nullable (getAriaLabel kb)]
     | None \<Rightarrow> format noKbMsg [Str commandId])"

datatype chat_type = panelChat | inlineChat

text \<open>
  Two of the messages are named, since the properties below speak about them: the
  request-history sentence of the inline chat and the closing sentence on audio cues.
\<close>

definition inlineChat_requestHistory :: string where
  "inlineChat_requestHistory =
    ''In the input box, use {0} and {1} to navigate your request history. Edit input and use enter or the submit button to run a new request.''"

definition chat_audioCues :: string where
  "chat_audioCues =
    ''Audio cues can be changed via settings with a prefix of audioCues.chat. By default, if a request takes more than 5 seconds, you will hear an audio cue indicating that progress is still occurring.''"

text \<open>
  \<open>helpContent\<close> is the array \<^verbatim>\<open>content\<close> at the moment it is joined: the elements in
  the order of the \<^verbatim>\<open>push\<close> calls. The call for the request history closes the
  parenthesis of \<^verbatim>\<open>localize\<close> after the message, so \<^verbatim>\<open>localize\<close> receives no argument and
  the two labels are further arguments of \<^verbatim>\<open>push\<close>.
\<close>

definition helpContent :: "keybinding_service \<Rightarrow> chat_type \<Rightarrow> js_value list" where
  "helpContent lookupKeybinding type =
    (if type = panelChat then
       [Str (localize ''chat.overview'' ''The chat view is comprised of an input box and a request/response list. The input box is used to make requests and the list is used to display responses.'' []),
        Str (localize ''chat.requestHistory'' ''In the input box, use up and down arrows to navigate your request history. Edit input and use enter or the submit button to run a new request.'' []),
        Str (localize ''chat.announcement'' ''Chat responses will be announced as they come in. A response will indicate the number of code blocks, if any, and then the rest of the response.'' []),
        Str (descriptionForCommand ''chat.action.focus''
          (localize ''workbench.action.chat.focus'' ''The Focus Chat command ({0}) focuses the chat request/response list, which can be navigated with up and down arrows.'' [])
          (localize ''workbench.action.chat.focusNoKb'' ''The Focus Chat List command focuses the chat request/response list, which can be navigated with UpArrow/DownArrow and is currently not triggerable by a keybinding.'' [])
          lookupKeybinding),
        Str (descriptionForCommand ''workbench.action.chat.focusInput''
          (localize ''workbench.action.chat.focusInput'' ''The Focus Chat Input command ({0}) focuses the input box for chat requests.'' [])
          (localize ''workbench.action.interactiveSession.focusInputNoKb'' ''Focus Chat Input command focuses the input box for chat requests and is currently not triggerable by a keybinding.'' [])
          lookupKeybinding),
        Str (descriptionForCommand ''workbench.action.chat.nextCodeBlock''
          (localize ''workbench.action.chat.nextCodeBlock'' ''The Chat: Next Code Block command ({0}) focuses the next code block within a response.'' [])
          (localize ''workbench.action.chat.nextCodeBlockNoKb'' ''The Chat: Next Code Block command focuses the next code block within a response and is currently not triggerable by a keybinding.'' [])
          lookupKeybinding),
        Str (descriptionForCommand ''workbench.action.chat.clear''
          (localize ''workbench.action.chat.clear'' ''The Chat Clear command ({0}) clears the request/response list.'' [])
          (localize ''workbench.action.chat.clearNoKb'' ''The Chat Clear command clears the request/response list and is currently not triggerable by a keybinding.'' [])
          lookupKeybinding)]
     else
       (let startChatKeybinding = optional_getAriaLabel (lookupKeybinding ''inlineChat.start'');
            upHistoryKeybinding = optional_getAriaLabel (lookupKeybinding ''inlineChat.previousFromHistory'');
            downHistoryKeybinding = optional_getAriaLabel (lookupKeybinding ''inlineChat.nextFromHistory'');
            diffReviewKeybinding = optional_getAriaLabel (lookupKeybinding ''editor.action.diffReview.next'')
        in
          [Str (localize ''inlineChat.overview'' ''Inline chat occurs within a code editor and takes into account the current selection. It is useful for making changes to the current editor. For example, fixing diagnostics, documenting or refactoring code. Keep in mind that AI generated code may be incorrect.'' []),
           Str (localize ''inlineChat.access'' ''It can be activated via code actions or directly using the command: Inline Chat: Start Code Chat ({0}).'' [startChatKeybinding])]
          @ (if truthy upHistoryKeybinding \<and> truthy downHistoryKeybinding
             then [Str (localize ''inlineChat.requestHistory'' inlineChat_requestHistory []),
                   upHistoryKeybinding, downHistoryKeybinding]
             else [])
          @ [Str (localize ''inlineChat.contextActions'' ''Context menu actions may run a request prefixed with /fix or /explain. Type / to discover more ready-made commands.'' []),
             Str (localize ''inlineChat.fix'' ''When a request is prefixed with /fix, a response will indicate the problem with the current code. A diff editor will be rendered and can be reached by tabbing.'' []),
             Str (if truthy diffReviewKeybinding
                  then localize ''inlineChat.diff'' ''Once in the diff editor, enter review mode with ({0}). Use up and down arrows to navigate lines with the proposed changes.'' [diffReviewKeybinding]
                  else localize ''inlineChat.diffNoKb'' ''Tab again to enter the Diff editor with the changes and enter review mode with the Go to Next Difference Command. Use Up/DownArrow to navigate lines with the proposed changes.'' []),
             Str (localize ''inlineChat.explain'' ''When a request is prefixed with /explain, a response will explain the code in the current selection and the chat view will be focused.'' []),
             Str (localize ''inlineChat.toolbar'' ''Use tab to reach conditional parts like commands, status, message responses and more.'' [])]))
    @ [Str (localize ''chat.audioCues'' chat_audioCues [])]"

text \<open>
  \<^verbatim>\<open>Array.prototype.join\<close>: an element that is \<^verbatim>\<open>undefined\<close> or \<^verbatim>\<open>null\<close> contributes
  the empty string.
\<close>

fun join_element :: "js_value \<Rightarrow> string" where
  "join_element Undefined = []"
| "join_element Null = []"
| "join_element (Str s) = s"

fun join :: "js_value list \<Rightarrow> string \<Rightarrow> string" where
  "join [] sep = []"
| "join [x] sep = join_element x"
| "join (x # y # ys) sep = join_element x @ sep @ join (y # ys) sep"

section \<open>Editors and services\<close>

text \<open>
  Modelled from the spec: the editor objects, the chat widget service, the inline chat
  controller and the accessible-view service belong to the host and are not among the sources.
  The spec names what the code uses of them: an input editor that may be absent, a document
  and a DOM node that may be absent, a focus and position operation, a view provider that is
  registered, shown and disposed. Editors are objects in a store addressed by reference, since
  the input editor of the inline chat is the editor passed in. The accessible-view service
  keeps the providers in the order of registration; the disposable that \<^verbatim>\<open>registerProvider\<close>
  returns is the index of the registration, \<open>disposed\<close> holds the disposables whose
  \<^verbatim>\<open>dispose\<close> has run and \<open>shown\<close> the ids passed to \<^verbatim>\<open>show\<close>. The record \<open>world\<close>
  is what the \<^verbatim>\<open>ServicesAccessor\<close> gives access to, together with the module-level list of
  icons and the scopes of the closures that the code creates.

  A closure captures variables, not values: the callback \<^verbatim>\<open>onClose\<close> refers to the
  variable \<^verbatim>\<open>provider\<close> of the call that created it, and that variable receives its value
  only when \<^verbatim>\<open>registerProvider\<close> has returned. So every call of the action that reaches the
  registration has a scope of its own in the store \<open>scopes\<close>, holding the variables the
  callback reads; \<open>sc_provider\<close> is \<open>None\<close> until the declaration of \<^verbatim>\<open>provider\<close> is
  complete, and reading it before raises a \<^verbatim>\<open>ReferenceError\<close>. The provider object holds
  its callback as the reference of that scope.
\<close>

type_synonym editor_ref = nat
type_synonym position = "nat \<times> nat"

record code_editor =
  model_uri :: "string option"
  domNode :: "nat option"
  position :: "position option"
  hasFocus :: bool
  inlineChatController :: "bool option"

record chat_widget =
  widget_inputEditor :: editor_ref

datatype AccessibleViewType = HelpMenu

record closure_scope =
  sc_type :: chat_type
  sc_cachedPosition :: "position option"
  sc_inputEditor :: editor_ref
  sc_editor :: editor_ref
  sc_provider :: "nat option"

datatype js_error = ReferenceError

record accessible_content_provider =
  provider_id :: chat_type
  provideContent :: string
  provider_onClose :: nat
  options_type :: AccessibleViewType
  options_ariaLabel :: string

record world =
  keybindingService :: keybinding_service
  lastFocusedWidget :: "chat_widget option"
  editors :: "editor_ref \<Rightarrow> code_editor"
  providers :: "accessible_content_provider list"
  disposed :: "nat set"
  shown :: "chat_type list"
  scopes :: "closure_scope list"
  icons :: "codicon list"

definition getAccessibilityHelpText :: "world \<Rightarrow> chat_type \<Rightarrow> string" where
  "getAccessibilityHelpText accessor type =
    join (helpContent (keybindingService accessor) type) [CHR 0x0A]"

text \<open>
  Modelled from the spec: the operations of the host that the action and its callback call.
  \<^verbatim>\<open>setPosition\<close> and \<^verbatim>\<open>focus\<close> are the position and focus operation of an editor,
  \<open>InlineChatController_focus\<close> is \<^verbatim>\<open>InlineChatController.get(editor)?.focus()\<close>, which does
  nothing for an editor without a controller, and \<^verbatim>\<open>registerProvider\<close>, \<^verbatim>\<open>dispose\<close> and
  \<^verbatim>\<open>show\<close> register, dispose and show a view provider.
\<close>

definition setPosition :: "editor_ref \<Rightarrow> position \<Rightarrow> world \<Rightarrow> world" where
  "setPosition e p w = w\<lparr>editors := (editors w)(e := (editors w e)\<lparr>position := Some p\<rparr>)\<rparr>"

definition focus :: "editor_ref \<Rightarrow> world \<Rightarrow> world" where
  "focus e w = w\<lparr>editors := (editors w)(e := (editors w e)\<lparr>hasFocus := True\<rparr>)\<rparr>"

definition InlineChatController_focus :: "editor_ref \<Rightarrow> world \<Rightarrow> world" where
  "InlineChatController_focus e w =
    (case inlineChatController (editors w e) of
       None \<Rightarrow> w
     | Some _ \<Rightarrow> w\<lparr>editors := (editors w)(e := (editors w e)\<lparr>inlineChatController := Some True\<rparr>)\<rparr>)"

definition registerProvider :: "accessible_content_provider \<Rightarrow> world \<Rightarrow> nat \<times> world" where
  "registerProvider p w = (length (providers w), w\<lparr>providers := providers w @ [p]\<rparr>)"

definition dispose :: "nat \<Rightarrow> world \<Rightarrow> world" where
  "dispose d w = w\<lparr>disposed := insert d (disposed w)\<rparr>"

definition accessibleView_show :: "chat_type \<Rightarrow> world \<Rightarrow> world" where
  "accessibleView_show providerId w = w\<lparr>shown := shown w @ [providerId]\<rparr>"

text \<open>
  The callback \<^verbatim>\<open>onClose\<close> of the registered provider, run in the scope of the call that
  created it. It takes no argument: the disposable it disposes is the value of the captured
  variable \<^verbatim>\<open>provider\<close>, and \<^verbatim>\<open>provider.dispose()\<close> is the last statement on every path.
  The result is the error raised, if any, and the world with the effects up to there. A scope
  reference that no call has created does not occur; the callback then does nothing.
\<close>

definition onClose :: "nat \<Rightarrow> world \<Rightarrow> js_error option \<times> world" where
  "onClose scope w =
    (if scope < length (scopes w) then
       (let sc = scopes w ! scope;
            w1 = (case (sc_type sc, sc_cachedPosition sc) of
                    (panelChat, Some cachedPosition) \<Rightarrow>
                      focus (sc_inputEditor sc) (setPosition (sc_inputEditor sc) cachedPosition w)
                  | (panelChat, None) \<Rightarrow> w
                  | (inlineChat, _) \<Rightarrow> InlineChatController_focus (sc_editor sc) w)
        in case sc_provider sc of
             None \<Rightarrow> (Some ReferenceError, w1)
           | Some provider \<Rightarrow> (None, dispose provider w1))
     else (None, w))"

text \<open>
  The function is declared \<^verbatim>\<open>async\<close> and awaits nothing, so it runs to its end when called.
  \<^verbatim>\<open>getSupportedActions\<close> is a query whose result is dropped. After the guards the call
  creates its scope, registers the provider object whose callback refers to that scope, and
  stores the disposable that \<^verbatim>\<open>registerProvider\<close> returned in the variable \<^verbatim>\<open>provider\<close>
  of the scope.
\<close>

definition runAccessibilityHelpAction :: "world \<Rightarrow> editor_ref \<Rightarrow> chat_type \<Rightarrow> world" where
  "runAccessibilityHelpAction accessor editor type =
    (let inputEditor =
           (if type = panelChat then map_option widget_inputEditor (lastFocusedWidget accessor)
            else Some editor);
         editorUri = model_uri (editors accessor editor)
     in case (inputEditor, editorUri) of
          (Some inputEditor, Some _) \<Rightarrow>
            (case domNode (editors accessor inputEditor) of
               None \<Rightarrow> accessor
             | Some _ \<Rightarrow>
                 (let cachedPosition = position (editors accessor inputEditor);
                      helpText = getAccessibilityHelpText accessor type;
                      scope = length (scopes accessor);
                      w1 = accessor\<lparr>scopes := scopes accessor @
                             [\<lparr>sc_type = type, sc_cachedPosition = cachedPosition,
                               sc_inputEditor = inputEditor, sc_editor = editor,
                               sc_provider = None\<rparr>]\<rparr>;
                      (provider, w2) = registerProvider
                        \<lparr>provider_id = type,
                         provideContent = helpText,
                         provider_onClose = scope,
                         options_type = HelpMenu,
                         options_ariaLabel =
                           (if type = panelChat
                            then localize ''chat-help-label'' ''Chat accessibility help'' []
                            else localize ''inline-chat-label'' ''Inline chat accessibility help'' [])\<rparr>
                        w1;
                      w3 = w2\<lparr>scopes := (scopes w2)
                             [scope := (scopes w2 ! scope)\<lparr>sc_provider := Some provider\<rparr>]\<rparr>
                  in accessibleView_show type w3))
        | _ \<Rightarrow> accessor)"

text \<open>
  The overlay of a registered provider closes: the host runs the callback of the provider
  object that the registry holds at the given place.
\<close>

definition closeView :: "nat \<Rightarrow> world \<Rightarrow> js_error option \<times> world" where
  "closeView i w =
    (if i < length (providers w) then onClose (provider_onClose (providers w ! i)) w
     else (None, w))"

section \<open>Notions used by the properties\<close>

text \<open>The text after the last line feed of a string (the whole string when there is none).\<close>

definition final_line :: "string \<Rightarrow> string" where
  "final_line s = rev (takeWhile (\<lambda>c. c \<noteq> CHR 0x0A) (rev s))"

text \<open>
  A message with a text substituted for \<^verbatim>\<open>{0}\<close>: every occurrence of the three characters
  \<^verbatim>\<open>{0}\<close>, from left to right, is replaced by the text, and what is inserted is not read
  again. \<open>padded_zero\<close> says that the characters \<^verbatim>\<open>{00\<close> occur in a message: \<open>format\<close>
  reads a placeholder of several zeros as index 0 too, which the words
  \<^emph>\<open>substituted for {0}\<close> do not cover. No message of the code has such a placeholder.
\<close>

fun substitute0 :: "string \<Rightarrow> string \<Rightarrow> string" where
  "substitute0 x [] = []"
| "substitute0 x (c # cs) =
    (if take 3 (c # cs) = ''{0}'' then x @ substitute0 x (drop 2 cs)
     else c # substitute0 x cs)"

fun padded_zero :: "string \<Rightarrow> bool" where
  "padded_zero [] = False"
| "padded_zero (c # cs) = (take 3 (c # cs) = ''{00'' \<or> padded_zero cs)"

text \<open>The command ids that \<^verbatim>\<open>getAccessibilityHelpText\<close> passes to \<^verbatim>\<open>lookupKeybinding\<close>.\<close>

definition lookedUpCommands :: "chat_type \<Rightarrow> string list" where
  "lookedUpCommands type =
    (if type = panelChat
     then [''chat.action.focus'', ''workbench.action.chat.focusInput'',
           ''workbench.action.chat.nextCodeBlock'', ''workbench.action.chat.clear'']
     else [''inlineChat.start'', ''inlineChat.previousFromHistory'',
           ''inlineChat.nextFromHistory'', ''editor.action.diffReview.next''])"

text \<open>
  The operations of the two files that act on the state, and the initialisation of the icon
  module, which stores the list literal.
\<close>

datatype operation = RunAccessibilityHelpAction editor_ref chat_type | CloseView nat

fun step :: "world \<Rightarrow> operation \<Rightarrow> world" where
  "step w (RunAccessibilityHelpAction editor type) = runAccessibilityHelpAction w editor type"
| "step w (CloseView i) = snd (closeView i w)"

definition load_userDataProfileIcons :: "world \<Rightarrow> world" where
  "load_userDataProfileIcons w = w\<lparr>icons := ICONS\<rparr>"

text \<open>Concrete keybinding services and worlds for the examples.\<close>

definition history_keybindings :: keybinding_service where
  "history_keybindings =
    map_of [(''inlineChat.previousFromHistory'', ResolvedKeybinding (Some ''UpArrow'')),
            (''inlineChat.nextFromHistory'', ResolvedKeybinding (Some ''DownArrow''))]"

definition example_world :: world where
  "example_world =
    \<lparr>keybindingService = history_keybindings,
     lastFocusedWidget = Some \<lparr>widget_inputEditor = 1\<rparr>,
     editors =
       (\<lambda>_. \<lparr>model_uri = None, domNode = None, position = None, hasFocus = False,
             inlineChatController = None\<rparr>)
       (0 := \<lparr>model_uri = Some ''file:///a.ts'', domNode = Some 7, position = Some (3, 4),
              hasFocus = True, inlineChatController = Some False\<rparr>,
        1 := \<lparr>model_uri = Some ''chat:input'', domNode = Some 8, position = Some (1, 9),
              hasFocus = False, inlineChatController = None\<rparr>),
     providers = [], disposed = {}, shown = [], scopes = [], icons = ICONS\<rparr>"

definition other_world :: world where
  "other_world =
    \<lparr>keybindingService =
       history_keybindings(''workbench.action.chat.clear'' \<mapsto> ResolvedKeybinding None),
     lastFocusedWidget = None,
     editors =
       (\<lambda>_. \<lparr>model_uri = None, domNode = None, position = None, hasFocus = False,
             inlineChatController = None\<rparr>)
       (0 := \<lparr>model_uri = Some ''file:///a.ts'', domNode = Some 7, position = Some (3, 4),
              hasFocus = True, inlineChatController = Some False\<rparr>,
        1 := \<lparr>model_uri = Some ''file:///b.ts'', domNode = None, position = None,
              hasFocus = False, inlineChatController = None\<rparr>),
     providers = [], disposed = {}, shown = [], scopes = [], icons = ICONS\<rparr>"

definition previous_only_keybindings :: keybinding_service where
  "previous_only_keybindings =
    map_of [(''inlineChat.previousFromHistory'', ResolvedKeybinding (Some ''UpArrow''))]"

section \<open>Properties of the icon list\<close>

text \<open>
  Claim C5. The elements of the list \<open>ICONS\<close> are pairwise distinct, and the list is a fixed
  sequence: it has 63 elements, as many as it has different elements, it starts with the
  settings gear and ends with the microphone.
\<close>

theorem ICONS_distinct:
  "distinct ICONS \<and> length ICONS = 63 \<and> card (set ICONS) = 63 \<and>
   hd ICONS = Codicon_settingsGear \<and> last ICONS = Codicon_mic"
proof -
  have d: "distinct ICONS"
    by (simp add: ICONS_def DEFAULT_ICON_def)
  have l: "length ICONS = 63"
    by (simp add: ICONS_def)
  have "card (set ICONS) = length ICONS"
    using d by (rule distinct_card)
  moreover have "hd ICONS = Codicon_settingsGear" "last ICONS = Codicon_mic"
    by (simp_all add: ICONS_def DEFAULT_ICON_def)
  ultimately show ?thesis
    using d l by simp
qed

text \<open>
  Claim C6. The list \<open>ICONS\<close> has one designated default element, \<open>DEFAULT_ICON\<close>: it is
  the first element of the list, a member of it, and it occurs in it exactly once.
\<close>

theorem DEFAULT_ICON_first:
  "hd ICONS = DEFAULT_ICON \<and> DEFAULT_ICON \<in> set ICONS \<and> count_list ICONS DEFAULT_ICON = 1"
  by (simp add: ICONS_def DEFAULT_ICON_def)

section \<open>Properties of the help text\<close>

lemma localize_no_args: "localize key message [] = message"
  by (simp add: localize_def)

lemma localize_plain_char:
  "args \<noteq> [] \<Longrightarrow> c \<noteq> CHR ''{'' \<Longrightarrow> localize key (c # cs) args = c # localize key cs args"
  by (simp add: localize_def)

lemma join_snoc: "xs \<noteq> [] \<Longrightarrow> join (xs @ [x]) sep = join xs sep @ sep @ join_element x"
  by (induction xs sep rule: join.induct) auto

lemma final_line_append:
  assumes "CHR 0x0A \<notin> set t"
  shows "final_line (s @ [CHR 0x0A] @ t) = t"
proof -
  have "takeWhile (\<lambda>c. c \<noteq> CHR 0x0A) (rev t @ CHR 0x0A # rev s) = rev t"
    using assms by (subst takeWhile_append2) auto
  then show ?thesis
    by (simp add: final_line_def)
qed

lemma last_helpContent: "last (helpContent ks type) = Str chat_audioCues"
  by (simp add: helpContent_def localize_no_args)

lemma length_helpContent: "2 \<le> length (helpContent ks type)"
  by (simp add: helpContent_def Let_def)

lemma helpText_decomposition:
  "\<exists>front. getAccessibilityHelpText accessor type = front @ [CHR 0x0A] @ chat_audioCues"
proof -
  let ?xs = "helpContent (keybindingService accessor) type"
  have ne: "?xs \<noteq> []"
    using length_helpContent [of "keybindingService accessor" type] by auto
  have "butlast ?xs \<noteq> []"
    using length_helpContent [of "keybindingService accessor" type]
    by (cases ?xs rule: rev_cases) auto
  moreover have "?xs = butlast ?xs @ [Str chat_audioCues]"
    using ne last_helpContent [of "keybindingService accessor" type]
    by (metis append_butlast_last_id)
  ultimately have "join ?xs [CHR 0x0A] = join (butlast ?xs) [CHR 0x0A] @ [CHR 0x0A] @ chat_audioCues"
    by (metis join_snoc join_element.simps(3))
  then show ?thesis
    by (auto simp: getAccessibilityHelpText_def)
qed

lemma no_newline_audioCues: "CHR 0x0A \<notin> set chat_audioCues"
  by (simp add: chat_audioCues_def)

text \<open>
  Claim C1, evaluated where it fails. With the type \<^verbatim>\<open>inlineChat\<close> and both history
  keybindings resolved, to the labels UpArrow and DownArrow, the third element of the content
  is the request-history sentence with its two placeholders still in it, and the two labels
  follow as elements of their own, which the join turns into two further lines.
\<close>

theorem requestHistory_placeholders_kept:
  "take 3 (drop 2 (helpContent history_keybindings inlineChat)) =
     [Str ''In the input box, use {0} and {1} to navigate your request history. Edit input and use enter or the submit button to run a new request.'',
      Str ''UpArrow'', Str ''DownArrow'']"
  by (simp add: helpContent_def Let_def localize_no_args history_keybindings_def
      optional_getAriaLabel_def inlineChat_requestHistory_def)

text \<open>
  Claim C8. The help text depends only on the type and on the keybinding lookups: two
  accessors whose keybinding services answer alike on the command ids that the function looks
  up for the type yield the same text, whatever else differs between them.
\<close>

theorem helpText_depends_on_lookups:
  assumes "\<forall>c \<in> set (lookedUpCommands type). keybindingService a1 c = keybindingService a2 c"
  shows "getAccessibilityHelpText a1 type = getAccessibilityHelpText a2 type"
proof -
  have "helpContent (keybindingService a1) type = helpContent (keybindingService a2) type"
    using assms
    by (cases type) (simp_all add: helpContent_def lookedUpCommands_def descriptionForCommand_def)
  then show ?thesis
    by (simp add: getAccessibilityHelpText_def)
qed

theorem helpText_depends_on_lookups_witness:
  "keybindingService example_world ''inlineChat.start'' =
     keybindingService other_world ''inlineChat.start'' \<and>
   keybindingService example_world ''inlineChat.previousFromHistory'' =
     keybindingService other_world ''inlineChat.previousFromHistory'' \<and>
   keybindingService example_world ''inlineChat.nextFromHistory'' =
     keybindingService other_world ''inlineChat.nextFromHistory'' \<and>
   keybindingService example_world ''editor.action.diffReview.next'' =
     keybindingService other_world ''editor.action.diffReview.next'' \<and>
   keybindingService example_world ''workbench.action.chat.clear'' \<noteq>
     keybindingService other_world ''workbench.action.chat.clear'' \<and>
   getAccessibilityHelpText example_world inlineChat =
     getAccessibilityHelpText other_world inlineChat"
  using helpText_depends_on_lookups [of inlineChat example_world other_world]
  by (simp add: lookedUpCommands_def example_world_def other_world_def history_keybindings_def)

text \<open>
  Claim C9. For both types and every keybinding service, the help text is not empty and
  its final line, the text after the last line feed, is the sentence on audio cues.
\<close>

theorem helpText_final_line:
  "getAccessibilityHelpText accessor type \<noteq> [] \<and>
   final_line (getAccessibilityHelpText accessor type) = chat_audioCues"
proof -
  obtain front where "getAccessibilityHelpText accessor type = front @ [CHR 0x0A] @ chat_audioCues"
    using helpText_decomposition by blast
  then show ?thesis
    using final_line_append [OF no_newline_audioCues] by simp
qed

text \<open>
  Claim C10. For the type \<^verbatim>\<open>inlineChat\<close>, when the label of the previous-from-history or of
  the next-from-history keybinding is missing (\<^verbatim>\<open>undefined\<close>, \<^verbatim>\<open>null\<close> or empty), the
  request-history sentence is not among the elements of the content, and nothing stands in
  for it: the content has its eight other elements only.
\<close>

theorem requestHistory_omitted:
  assumes "\<not> truthy (optional_getAriaLabel (keybindingService accessor ''inlineChat.previousFromHistory''))
         \<or> \<not> truthy (optional_getAriaLabel (keybindingService accessor ''inlineChat.nextFromHistory''))"
  shows "Str inlineChat_requestHistory \<notin> set (helpContent (keybindingService accessor) inlineChat) \<and>
         length (helpContent (keybindingService accessor) inlineChat) = 8"
  using assms
  by (auto simp add: helpContent_def Let_def localize_no_args localize_plain_char
      inlineChat_requestHistory_def chat_audioCues_def)

theorem requestHistory_omitted_witness:
  "\<not> truthy (optional_getAriaLabel (previous_only_keybindings ''inlineChat.nextFromHistory'')) \<and>
   Str inlineChat_requestHistory \<notin> set (helpContent previous_only_keybindings inlineChat) \<and>
   length (helpContent previous_only_keybindings inlineChat) = 8"
  using requestHistory_omitted [of "example_world\<lparr>keybindingService := previous_only_keybindings\<rparr>"]
  by (simp add: previous_only_keybindings_def optional_getAriaLabel_def)

subsection \<open>Substitution by \<open>format\<close>\<close>

lemma is_digit_simps [simp]:
  "is_digit CHR ''0''" "\<not> is_digit CHR ''}''" "\<not> is_digit CHR ''{''"
  by (simp_all add: is_digit_def)

lemma padded_zero_append: "padded_zero v \<Longrightarrow> padded_zero (u @ v)"
  by (induction u) auto

lemma substitute0_plain_prefix:
  "CHR ''{'' \<notin> set u \<Longrightarrow> substitute0 x (u @ v) = u @ substitute0 x v"
  by (induction u) auto

lemma digit_zero: "is_digit c \<Longrightarrow> digit_value c = 0 \<Longrightarrow> c = CHR ''0''"
  by (auto simp add: is_digit_def digit_value_def)

lemma foldl_digits_zero:
  "foldl (\<lambda>n c. 10 * n + digit_value c) k ds = 0 \<Longrightarrow> k = 0 \<and> (\<forall>c \<in> set ds. digit_value c = 0)"
proof (induction ds arbitrary: k)
  case Nil
  then show ?case by simp
next
  case (Cons a ds)
  from Cons.prems have "foldl (\<lambda>n c. 10 * n + digit_value c) (10 * k + digit_value a) ds = 0"
    by simp
  then have "10 * k + digit_value a = 0 \<and> (\<forall>c \<in> set ds. digit_value c = 0)"
    by (rule Cons.IH)
  then show ?case by simp
qed

lemma parseInt_zero:
  assumes "parseInt ds = 0" and "\<forall>c \<in> set ds. is_digit c"
  shows "\<forall>c \<in> set ds. c = CHR ''0''"
  using foldl_digits_zero [of 0 ds] assms digit_zero by (auto simp add: parseInt_def)

lemma substitute0_other:
  "take 3 (c # cs) \<noteq> ''{0}'' \<Longrightarrow> substitute0 x (c # cs) = c # substitute0 x cs"
  by (simp only: substitute0.simps if_False)

lemma take3_placeholder0:
  "take 3 (c # cs) = ''{0}'' \<Longrightarrow> c = CHR ''{'' \<and> (\<exists>t. cs = CHR ''0'' # CHR ''}'' # t)"
  by (cases cs; cases "tl cs") auto

lemma replace_placeholders_match:
  assumes "dropWhile is_digit cs = CHR ''}'' # rest" and "takeWhile is_digit cs \<noteq> []"
  shows "replace_placeholders f (CHR ''{'' # cs) =
         f (takeWhile is_digit cs) @ replace_placeholders f rest"
  using assms by simp

lemma replace_placeholders_no_match:
  assumes "\<not> (c = CHR ''{'' \<and> takeWhile is_digit cs \<noteq> [] \<and>
              (\<exists>rest. dropWhile is_digit cs = CHR ''}'' # rest))"
  shows "replace_placeholders f (c # cs) = c # replace_placeholders f cs"
  using assms by (auto split: list.splits)

lemma all_zero_digits:
  assumes "\<forall>c \<in> set ds. c = CHR ''0''" and "ds \<noteq> []"
  shows "ds = ''0'' \<or> (\<exists>t. ds = CHR ''0'' # CHR ''0'' # t)"
proof (cases ds)
  case Nil
  then show ?thesis using assms by simp
next
  case (Cons a as)
  then show ?thesis using assms by (cases as) auto
qed

lemma replace_single:
  fixes x :: string
  defines "f \<equiv> (\<lambda>group. if parseInt group < 1 then x else ''{'' @ group @ ''}'')"
  shows "\<not> padded_zero s \<Longrightarrow> replace_placeholders f s = substitute0 x s"
proof (induction "length s" arbitrary: s rule: less_induct)
  case less
  show ?case
  proof (cases s)
    case Nil
    then show ?thesis by simp
  next
    case (Cons c cs)
    have np: "\<not> padded_zero cs" and n3: "take 3 (c # cs) \<noteq> ''{00''"
      using less.prems by (simp_all only: Cons padded_zero.simps de_Morgan_disj not_False_eq_True)
    have IHcs: "replace_placeholders f cs = substitute0 x cs"
      using less.hyps [of cs] np by (simp add: Cons)
    show ?thesis
    proof (cases "c = CHR ''{'' \<and> takeWhile is_digit cs \<noteq> [] \<and>
                  (\<exists>rest. dropWhile is_digit cs = CHR ''}'' # rest)")
      case True
      define ds where "ds = takeWhile is_digit cs"
      from True obtain rest where r: "dropWhile is_digit cs = CHR ''}'' # rest"
        and c: "c = CHR ''{''" and ne: "ds \<noteq> []"
        unfolding ds_def by blast
      have cs: "cs = ds @ CHR ''}'' # rest"
        unfolding ds_def by (metis r takeWhile_dropWhile_id)
      have dig: "\<forall>c \<in> set ds. is_digit c"
        unfolding ds_def by (auto dest: set_takeWhileD)
      have "padded_zero rest \<Longrightarrow> padded_zero cs"
        by (subst cs) (use padded_zero_append [of rest "ds @ [CHR ''}'']"] in simp)
      then have "\<not> padded_zero rest"
        using np by blast
      moreover have "length cs = length ds + Suc (length rest)"
        by (subst cs) simp
      then have "length rest < length s"
        by (simp add: Cons)
      ultimately have IHrest: "replace_placeholders f rest = substitute0 x rest"
        using less.hyps [of rest] by simp
      have lhs: "replace_placeholders f s = f ds @ replace_placeholders f rest"
        unfolding ds_def Cons c using r ne [unfolded ds_def]
        by (rule replace_placeholders_match)
      show ?thesis
      proof (cases "parseInt ds = 0")
        case True
        then have "\<forall>c \<in> set ds. c = CHR ''0''"
          using parseInt_zero dig by blast
        then consider "ds = ''0''" | t where "ds = CHR ''0'' # CHR ''0'' # t"
          using all_zero_digits ne by blast
        then have d0: "ds = ''0''"
        proof cases
          case 1
          then show ?thesis .
        next
          case 2
          have "cs = CHR ''0'' # CHR ''0'' # t @ CHR ''}'' # rest"
            by (subst cs) (simp add: 2)
          then have "take 3 (c # cs) = ''{00''"
            by (simp add: c)
          then show ?thesis using n3 by blast
        qed
        have "cs = CHR ''0'' # CHR ''}'' # rest"
          by (subst cs) (simp add: d0)
        then have "substitute0 x s = x @ substitute0 x rest"
          by (simp add: Cons c)
        moreover have "f ds = x"
          using True by (simp add: f_def)
        ultimately show ?thesis
          using lhs IHrest by simp
      next
        case False
        then have fd: "f ds = CHR ''{'' # ds @ ''}''"
          by (simp add: f_def)
        have nz: "ds \<noteq> ''0''"
          using False by (auto simp add: parseInt_def digit_value_def)
        have "take 3 (c # cs) \<noteq> ''{0}''"
        proof
          assume "take 3 (c # cs) = ''{0}''"
          then obtain t where "cs = CHR ''0'' # CHR ''}'' # t"
            using take3_placeholder0 by blast
          then have "ds = ''0''"
            by (simp add: ds_def)
          then show False using nz by blast
        qed
        then have "substitute0 x (c # cs) = c # substitute0 x cs"
          by (rule substitute0_other)
        moreover have "substitute0 x cs = ds @ substitute0 x (CHR ''}'' # rest)"
          by (subst cs, subst substitute0_plain_prefix) (use dig in auto)
        moreover have "substitute0 x (CHR ''}'' # rest) = CHR ''}'' # substitute0 x rest"
          by (rule substitute0_other) simp
        ultimately have "substitute0 x s = CHR ''{'' # ds @ CHR ''}'' # substitute0 x rest"
          by (simp add: Cons c)
        then show ?thesis
          using lhs fd IHrest by simp
      qed
    next
      case False
      then have lhs: "replace_placeholders f (c # cs) = c # replace_placeholders f cs"
        by (rule replace_placeholders_no_match)
      have "take 3 (c # cs) \<noteq> ''{0}''"
      proof
        assume "take 3 (c # cs) = ''{0}''"
        then obtain t where "c = CHR ''{''" "cs = CHR ''0'' # CHR ''}'' # t"
          using take3_placeholder0 by blast
        then show False using False by simp
      qed
      then have "substitute0 x (c # cs) = c # substitute0 x cs"
        by (rule substitute0_other)
      then show ?thesis
        using lhs IHcs by (simp add: Cons)
    qed
  qed
qed

lemma format_single:
  "\<not> padded_zero msg \<Longrightarrow> format msg [a] = substitute0 (js_String a) msg"
  using replace_single [of msg "js_String a"]
  by (simp add: format_def cong: if_cong)

text \<open>
  Claim C4. For every command id and every pair of messages, \<open>descriptionForCommand\<close>
  returns the message for a keybinding, formatted with the aria label of the keybinding,
  exactly when the keybinding service resolves the command id, and otherwise the message for
  no keybinding, formatted with the command id. For messages without a placeholder of several
  zeros this is the substitution the property speaks of: the result is the message for a
  keybinding with the aria label in place of every \<^verbatim>\<open>{0}\<close>, or the message for no
  keybinding with the command id in place of every \<^verbatim>\<open>{0}\<close>. An aria label that is
  \<^verbatim>\<open>null\<close> is substituted as the text \<^verbatim>\<open>null\<close>.
\<close>

theorem descriptionForCommand_substitutes:
  "descriptionForCommand commandId msg noKbMsg ks =
     (case ks commandId of
        Some kb \<Rightarrow> format msg [of_nullable (getAriaLabel kb)]
      | None \<Rightarrow> format noKbMsg [Str commandId]) \<and>
   (\<not> padded_zero msg \<and> \<not> padded_zero noKbMsg \<longrightarrow>
    descriptionForCommand commandId msg noKbMsg ks =
      (case ks commandId of
         Some kb \<Rightarrow> substitute0 (js_String (of_nullable (getAriaLabel kb))) msg
       | None \<Rightarrow> substitute0 commandId noKbMsg))"
  by (simp add: descriptionForCommand_def format_single split: option.splits)

text \<open>
  The two cases at the messages of the Chat Clear command: the label takes the place of the
  placeholder; the message for no keybinding has no placeholder and is returned as it is.
\<close>

theorem descriptionForCommand_substitutes_witness:
  "\<not> padded_zero ''The Chat Clear command ({0}) clears the request/response list.'' \<and>
   \<not> padded_zero ''The Chat Clear command clears the request/response list and is currently not triggerable by a keybinding.'' \<and>
   descriptionForCommand ''workbench.action.chat.clear''
     ''The Chat Clear command ({0}) clears the request/response list.''
     ''The Chat Clear command clears the request/response list and is currently not triggerable by a keybinding.''
     (history_keybindings(''workbench.action.chat.clear'' \<mapsto> ResolvedKeybinding (Some ''Ctrl+L'')))
   = ''The Chat Clear command (Ctrl+L) clears the request/response list.'' \<and>
   descriptionForCommand ''workbench.action.chat.clear''
     ''The Chat Clear command ({0}) clears the request/response list.''
     ''The Chat Clear command clears the request/response list and is currently not triggerable by a keybinding.''
     history_keybindings
   = ''The Chat Clear command clears the request/response list and is currently not triggerable by a keybinding.''"
proof -
  have p: "\<not> padded_zero ''The Chat Clear command ({0}) clears the request/response list.''"
    "\<not> padded_zero ''The Chat Clear command clears the request/response list and is currently not triggerable by a keybinding.''"
    by simp_all
  show ?thesis
    using p
      descriptionForCommand_substitutes
        [of "''workbench.action.chat.clear''"
            "''The Chat Clear command ({0}) clears the request/response list.''"
            "''The Chat Clear command clears the request/response list and is currently not triggerable by a keybinding.''"
            "history_keybindings(''workbench.action.chat.clear'' \<mapsto> ResolvedKeybinding (Some ''Ctrl+L''))"]
      descriptionForCommand_substitutes
        [of "''workbench.action.chat.clear''"
            "''The Chat Clear command ({0}) clears the request/response list.''"
            "''The Chat Clear command clears the request/response list and is currently not triggerable by a keybinding.''"
            history_keybindings]
    by (simp add: history_keybindings_def format_def is_digit_def parseInt_def digit_value_def)
qed

section \<open>Properties of the help action\<close>

text \<open>
  Claim C2. When a required value is absent, \<open>runAccessibilityHelpAction\<close> returns with the
  world as it was: for the panel chat no widget has had the focus, or the editor passed in has
  no model, or the input editor has no DOM node. So no provider is registered, no view is
  shown, and position and focus of every editor stay as they are. The model has no error
  value, as the code has no throw.
\<close>

theorem runAccessibilityHelpAction_early_return:
  assumes "(type = panelChat \<and> lastFocusedWidget accessor = None)
         \<or> model_uri (editors accessor editor) = None
         \<or> (type = panelChat \<and>
             (\<exists>widget. lastFocusedWidget accessor = Some widget \<and>
                domNode (editors accessor (widget_inputEditor widget)) = None))
         \<or> (type = inlineChat \<and> domNode (editors accessor editor) = None)"
  shows "runAccessibilityHelpAction accessor editor type = accessor"
  using assms
  by (cases type) (auto simp add: runAccessibilityHelpAction_def split: option.splits)

theorem runAccessibilityHelpAction_early_return_witness:
  "model_uri (editors example_world 2) = None \<and>
   runAccessibilityHelpAction example_world 2 inlineChat = example_world \<and>
   lastFocusedWidget other_world = None \<and>
   runAccessibilityHelpAction other_world 0 panelChat = other_world \<and>
   domNode (editors other_world 1) = None \<and>
   runAccessibilityHelpAction other_world 1 inlineChat = other_world"
  using runAccessibilityHelpAction_early_return [of inlineChat example_world 2]
    runAccessibilityHelpAction_early_return [of panelChat other_world 0]
    runAccessibilityHelpAction_early_return [of inlineChat other_world 1]
  by (simp add: example_world_def other_world_def)

lemma runAccessibilityHelpAction_disposed:
  "disposed (runAccessibilityHelpAction accessor editor type) = disposed accessor"
  by (simp add: runAccessibilityHelpAction_def registerProvider_def accessibleView_show_def Let_def
      split: option.splits)

lemma runAccessibilityHelpAction_icons:
  "icons (runAccessibilityHelpAction accessor editor type) = icons accessor"
  by (simp add: runAccessibilityHelpAction_def registerProvider_def accessibleView_show_def Let_def
      split: option.splits)

lemma onClose_icons: "icons (snd (onClose scope w)) = icons w"
  by (simp add: onClose_def dispose_def focus_def setPosition_def InlineChatController_focus_def
      Let_def split: chat_type.splits option.splits)

lemma onClose_bound:
  assumes "scope < length (scopes w)" and "sc_provider (scopes w ! scope) = Some d"
  shows "fst (onClose scope w) = None"
    and "disposed (snd (onClose scope w)) = insert d (disposed w)"
    and "providers (snd (onClose scope w)) = providers w"
  using assms
  by (simp_all add: onClose_def dispose_def focus_def setPosition_def
      InlineChatController_focus_def Let_def split: chat_type.splits option.splits)

lemma runAccessibilityHelpAction_registers:
  assumes "providers (runAccessibilityHelpAction accessor editor type) \<noteq> providers accessor"
  shows "\<exists>p. providers (runAccessibilityHelpAction accessor editor type) = providers accessor @ [p] \<and>
             provider_id p = type \<and>
             provider_onClose p = length (scopes accessor) \<and>
             length (scopes (runAccessibilityHelpAction accessor editor type)) =
               Suc (length (scopes accessor)) \<and>
             sc_provider (scopes (runAccessibilityHelpAction accessor editor type) !
                 length (scopes accessor)) =
               Some (fst (registerProvider p accessor))"
  using assms
  by (cases type)
    (auto simp add: runAccessibilityHelpAction_def registerProvider_def accessibleView_show_def
      Let_def split: option.splits)

text \<open>
  Claim C3. When \<open>runAccessibilityHelpAction\<close> registers a provider, for either type, it
  registers one provider \<open>p\<close>, under the id of the type, and the variable \<^verbatim>\<open>provider\<close> that
  the callback of \<open>p\<close> reads holds the disposable \<open>d\<close> that \<^verbatim>\<open>registerProvider\<close> returned
  for \<open>p\<close> (what it returns depends on the providers registered so far only, and these are
  the providers of the accessor), which stands for the registration of \<open>p\<close> itself. When the
  overlay closes, the
  callback raises no error and disposes exactly \<open>d\<close>: the disposed ones are those from
  before the call and \<open>d\<close>, and the registered providers stay as they are. The same holds
  whenever the callback runs later, in any world that still has the scope of the call.
\<close>

theorem onClose_disposes_registered_provider:
  assumes "providers (runAccessibilityHelpAction accessor editor type) \<noteq> providers accessor"
  shows "\<exists>p d. providers (runAccessibilityHelpAction accessor editor type) = providers accessor @ [p] \<and>
             provider_id p = type \<and>
             d = fst (registerProvider p accessor) \<and>
             providers (runAccessibilityHelpAction accessor editor type) ! d = p \<and>
             sc_provider (scopes (runAccessibilityHelpAction accessor editor type) !
                 provider_onClose p) = Some d \<and>
             fst (closeView (length (providers accessor))
                    (runAccessibilityHelpAction accessor editor type)) = None \<and>
             disposed (snd (closeView (length (providers accessor))
                              (runAccessibilityHelpAction accessor editor type))) =
               insert d (disposed accessor) \<and>
             providers (snd (closeView (length (providers accessor))
                               (runAccessibilityHelpAction accessor editor type))) =
               providers accessor @ [p] \<and>
             (\<forall>w. provider_onClose p < length (scopes w) \<and>
                  scopes w ! provider_onClose p =
                    scopes (runAccessibilityHelpAction accessor editor type) ! provider_onClose p
                  \<longrightarrow> fst (onClose (provider_onClose p) w) = None \<and>
                      disposed (snd (onClose (provider_onClose p) w)) = insert d (disposed w))"
proof -
  let ?w = "runAccessibilityHelpAction accessor editor type"
  let ?s = "length (scopes accessor)"
  obtain p where p: "providers ?w = providers accessor @ [p]" "provider_id p = type"
      "provider_onClose p = ?s" "length (scopes ?w) = Suc ?s"
      "sc_provider (scopes ?w ! ?s) = Some (fst (registerProvider p accessor))"
    using runAccessibilityHelpAction_registers [OF assms] by blast
  let ?d = "fst (registerProvider p accessor)"
  have d: "?d = length (providers accessor)"
    by (simp add: registerProvider_def)
  have s: "?s < length (scopes ?w)"
    using p(4) by simp
  have c: "closeView (length (providers accessor)) ?w = onClose ?s ?w"
    using p by (simp add: closeView_def)
  have later: "fst (onClose ?s w) = None \<and> disposed (snd (onClose ?s w)) = insert ?d (disposed w)"
    if "?s < length (scopes w)" "scopes w ! ?s = scopes ?w ! ?s" for w
    using onClose_bound(1,2) [of ?s w ?d] that p(5) by simp
  have "providers ?w ! ?d = p"
    using p(1) d by simp
  moreover have "fst (onClose ?s ?w) = None"
      "disposed (snd (onClose ?s ?w)) = insert ?d (disposed accessor)"
      "providers (snd (onClose ?s ?w)) = providers accessor @ [p]"
    using onClose_bound [OF s p(5)] p(1) by (simp_all add: runAccessibilityHelpAction_disposed)
  ultimately show ?thesis
    using p c later by auto
qed

theorem onClose_disposes_registered_provider_witness:
  "providers (runAccessibilityHelpAction example_world 0 panelChat) \<noteq> providers example_world \<and>
   providers (runAccessibilityHelpAction example_world 0 inlineChat) \<noteq> providers example_world \<and>
   closeView 0 (runAccessibilityHelpAction example_world 0 panelChat) =
     (None, (focus 1 (runAccessibilityHelpAction example_world 0 panelChat))\<lparr>disposed := {0}\<rparr>) \<and>
   fst (closeView 0 (runAccessibilityHelpAction example_world 0 inlineChat)) = None \<and>
   disposed (snd (closeView 0 (runAccessibilityHelpAction example_world 0 inlineChat))) = {0}"
proof -
  have h: "providers (runAccessibilityHelpAction example_world 0 panelChat) \<noteq> providers example_world"
    by (simp add: example_world_def runAccessibilityHelpAction_def registerProvider_def
        accessibleView_show_def Let_def)
  have i: "providers (runAccessibilityHelpAction example_world 0 inlineChat) \<noteq> providers example_world"
    by (simp add: example_world_def runAccessibilityHelpAction_def registerProvider_def
        accessibleView_show_def Let_def)
  have e: "length (providers example_world) = 0" "disposed example_world = {}"
    by (simp_all add: example_world_def)
  have "fst (closeView 0 (runAccessibilityHelpAction example_world 0 inlineChat)) = None \<and>
        disposed (snd (closeView 0 (runAccessibilityHelpAction example_world 0 inlineChat))) = {0}"
    using onClose_disposes_registered_provider [OF i] e by (auto simp add: registerProvider_def)
  moreover have "closeView 0 (runAccessibilityHelpAction example_world 0 panelChat) =
     (None, (focus 1 (runAccessibilityHelpAction example_world 0 panelChat))\<lparr>disposed := {0}\<rparr>)"
    by (simp add: example_world_def runAccessibilityHelpAction_def registerProvider_def
        accessibleView_show_def closeView_def onClose_def dispose_def focus_def setPosition_def
        Let_def fun_upd_twist)
  ultimately show ?thesis
    using h i by blast
qed

lemma step_icons: "icons (step w operation) = icons w"
  by (cases operation)
    (simp_all add: runAccessibilityHelpAction_icons closeView_def onClose_icons)

section \<open>The icon list is never mutated\<close>

text \<open>
  Claim C7. The list \<open>ICONS\<close> is stored once, when the module is loaded, and no operation
  of the code changes it afterwards: after any sequence of help actions and overlay closings
  the stored list is the list literal, with its length, elements and order. The remaining
  functions, \<open>getAccessibilityHelpText\<close> and \<open>descriptionForCommand\<close>, return strings
  and write nothing.
\<close>

theorem ICONS_never_mutated:
  "icons (foldl step (load_userDataProfileIcons w) operations) = ICONS"
proof -
  have "icons (foldl step v operations) = icons v" for v
    by (induction operations arbitrary: v) (simp_all add: step_icons)
  then show ?thesis
    by (simp add: load_userDataProfileIcons_def)
qed

end
